theory Spec2Isabelle
  imports Main
begin

section \<open>Authorization tables (app/permissions.py)\<close>

text \<open>
  The permission functions read five tables through raw SQL. Each table is a list of
  rows; a row is a record whose fields are the columns the queries mention. The flag
  columns are written as the integers 0 and 1 by \<open>save_permissions\<close> and are compared
  with \<open>=1\<close> in the queries, so they are integers here.
\<close>

record admin_user =
  au_id :: int
  au_username :: string
  au_password_hash :: string
  au_is_active :: int

record admin_role =
  ar_id :: int
  ar_name :: string

record admin_user_role =
  ur_user_id :: int
  ur_role_id :: int

record admin_permission =
  p_role_id :: int
  p_table_name :: string
  p_can_view :: int
  p_can_create :: int
  p_can_update :: int
  p_can_delete :: int

record admin_panel_permission =
  ap_role_id :: int
  ap_can_admin_access :: int
  ap_can_user_create :: int
  ap_can_user_toggle :: int
  ap_can_user_role_add :: int
  ap_can_user_role_remove :: int
  ap_can_role_create :: int
  ap_can_permissions_edit :: int

record admin_kv_permission =
  kp_role_id :: int
  kp_side :: int
  kp_field_name :: string
  kp_can_edit :: int

text \<open>
  Rows of \<open>support_cases\<close> and \<open>vehicles\<close> (app/db.py). The two timestamp columns of
  \<open>support_cases\<close> are maintained by the database server and no statement of the
  handlers below names them; they are left out.
\<close>

record support_case =
  sc_id :: int
  sc_player_pid :: string
  sc_player_name :: "string option"
  sc_case_type :: string
  sc_area :: string
  sc_supporter_name :: string
  sc_scn :: "string option"
  sc_content :: "string option"
  sc_status :: string

record vehicle =
  v_id :: int
  v_side :: string
  v_classname :: string
  v_type :: string
  v_pid :: string
  v_alive :: int
  v_active :: int
  v_sold :: int
  v_locked :: int
  v_color :: int
  v_trunk :: string
  v_chip :: int
  v_ts_bought :: int
  v_ts_modified :: int

text \<open>
  The database the session \<open>db\<close> talks to. \<open>kvstore\<close> has the primary key
  \<open>(pid, k, side)\<close>, so it is a finite map from that triple to the pair \<open>(v, t)\<close>.
\<close>

record database =
  admin_users :: "admin_user list"
  admin_roles :: "admin_role list"
  admin_user_roles :: "admin_user_role list"
  admin_permissions :: "admin_permission list"
  admin_panel_permissions :: "admin_panel_permission list"
  admin_kv_permissions :: "admin_kv_permission list"
  kvstore :: "(string \<times> string \<times> int) \<rightharpoonup> (string \<times> string option)"
  support_cases :: "support_case list"
  vehicles :: "vehicle list"

text \<open>\<open>.first()\<close> of a result: the first row or \<open>None\<close>; \<open>bool(row)\<close> of that.\<close>

definition first :: "'a list \<Rightarrow> 'a option" where
  "first rs = (case rs of [] \<Rightarrow> None | r # _ \<Rightarrow> Some r)"

definition bool_row :: "'a option \<Rightarrow> bool" where
  "bool_row row = (case row of None \<Rightarrow> False | Some _ \<Rightarrow> True)"

definition is_admin :: "database \<Rightarrow> int \<Rightarrow> bool" where
  "is_admin db user_id =
     bool_row (first (take 1
       [(1::int). ur \<leftarrow> admin_user_roles db, r \<leftarrow> admin_roles db,
          ar_id r = ur_role_id ur,
          ur_user_id ur = user_id \<and> ar_name r = ''admin'']))"

definition ACTION_COL :: "(string \<times> string) list" where
  "ACTION_COL =
     [(''view'', ''can_view''),
      (''create'', ''can_create''),
      (''update'', ''can_update''),
      (''delete'', ''can_delete'')]"

text \<open>The column of \<open>admin_permissions\<close> that the interpolated name \<open>p.{col}\<close> reads.\<close>

definition permission_col :: "string \<Rightarrow> admin_permission \<Rightarrow> int option" where
  "permission_col col p =
     (if col = ''can_view'' then Some (p_can_view p)
      else if col = ''can_create'' then Some (p_can_create p)
      else if col = ''can_update'' then Some (p_can_update p)
      else if col = ''can_delete'' then Some (p_can_delete p)
      else None)"

definition can :: "database \<Rightarrow> int \<Rightarrow> string \<Rightarrow> string \<Rightarrow> bool" where
  "can db user_id table_name action =
     (case map_of ACTION_COL action of
        None \<Rightarrow> False
      | Some col \<Rightarrow>
          bool_row (first (take 1
            [(1::int). ur \<leftarrow> admin_user_roles db, p \<leftarrow> admin_permissions db,
               p_role_id p = ur_role_id ur,
               ur_user_id ur = user_id \<and> p_table_name p = table_name
                 \<and> permission_col col p = Some 1])))"

definition ADMIN_ACTION_COL :: "(string \<times> string) list" where
  "ADMIN_ACTION_COL =
     [(''admin_access'', ''can_admin_access''),
      (''user_create'', ''can_user_create''),
      (''user_toggle'', ''can_user_toggle''),
      (''user_role_add'', ''can_user_role_add''),
      (''user_role_remove'', ''can_user_role_remove''),
      (''role_create'', ''can_role_create''),
      (''permissions_edit'', ''can_permissions_edit'')]"

definition panel_col :: "string \<Rightarrow> admin_panel_permission \<Rightarrow> int option" where
  "panel_col col ap =
     (if col = ''can_admin_access'' then Some (ap_can_admin_access ap)
      else if col = ''can_user_create'' then Some (ap_can_user_create ap)
      else if col = ''can_user_toggle'' then Some (ap_can_user_toggle ap)
      else if col = ''can_user_role_add'' then Some (ap_can_user_role_add ap)
      else if col = ''can_user_role_remove'' then Some (ap_can_user_role_remove ap)
      else if col = ''can_role_create'' then Some (ap_can_role_create ap)
      else if col = ''can_permissions_edit'' then Some (ap_can_permissions_edit ap)
      else None)"

definition can_admin_panel :: "database \<Rightarrow> int \<Rightarrow> string \<Rightarrow> bool" where
  "can_admin_panel db user_id action =
     (case map_of ADMIN_ACTION_COL action of
        None \<Rightarrow> False
      | Some col \<Rightarrow>
          bool_row (first (take 1
            [(1::int). ur \<leftarrow> admin_user_roles db, ap \<leftarrow> admin_panel_permissions db,
               ap_role_id ap = ur_role_id ur,
               ur_user_id ur = user_id \<and> panel_col col ap = Some 1])))"

definition KV_FIELDS :: "string set" where
  "KV_FIELDS =
     {''name'', ''level'', ''pt'', ''cash'', ''bank'',
      ''address'', ''town'', ''birthday'', ''birthlocation'',
      ''eyecolor'', ''height''}"

definition can_kv_field :: "database \<Rightarrow> int \<Rightarrow> int \<Rightarrow> string \<Rightarrow> bool" where
  "can_kv_field db user_id side field_name =
     (if side \<notin> {0, 1, 2} then False
      else if field_name \<notin> KV_FIELDS then False
      else if is_admin db user_id then True
      else
        bool_row (first (take 1
          [(1::int). ur \<leftarrow> admin_user_roles db, kp \<leftarrow> admin_kv_permissions db,
             kp_role_id kp = ur_role_id ur,
             ur_user_id ur = user_id \<and> kp_side kp = side
               \<and> kp_field_name kp = field_name \<and> kp_can_edit kp = 1])))"


section \<open>Session, flash messages and admission to the admin panel\<close>

text \<open>
  The session carries the user id and the flash list (app/auth.py, app/flash.py).
  Exceptions are values: a handler returns \<open>Inl\<close> of the exception it raises. Strings
  are lists of 8-bit characters, read as code points below 256.
\<close>

record session =
  s_user_id :: "int option"
  s_flash :: "(string \<times> string) list"

datatype error =
    HTTPException int
  | ValueError string
  | KeyError string
  | AttributeError string
  | SQLAlchemyError string

datatype response =
    TemplateResponse string "string option"
  | RedirectResponse string int

definition get_user_id :: "session \<Rightarrow> int option" where
  "get_user_id request = s_user_id request"

definition flash :: "session \<Rightarrow> string \<Rightarrow> string \<Rightarrow> session" where
  "flash request message category =
     request\<lparr>s_flash := s_flash request @ [(message, category)]\<rparr>"

text \<open>\<open>if not uid\<close> holds for \<open>None\<close> and for the integer 0.\<close>

definition require_admin :: "database \<Rightarrow> session \<Rightarrow> error + int" where
  "require_admin db request =
     (case get_user_id request of
        None \<Rightarrow> Inl (HTTPException 401)
      | Some uid \<Rightarrow>
          if uid = 0 then Inl (HTTPException 401)
          else if is_admin db uid then Inr uid
          else if \<not> can_admin_panel db uid ''admin_access'' then Inl (HTTPException 403)
          else Inr uid)"


text \<open>
  The check \<open>is_admin(db, uid) or can_admin_panel(db, uid, action)\<close> that the handlers
  of app/routers/admin_routes.py make after \<open>require_admin\<close>.
\<close>

definition panel_check :: "database \<Rightarrow> int \<Rightarrow> string \<Rightarrow> bool" where
  "panel_check db uid action = (is_admin db uid \<or> can_admin_panel db uid action)"

section \<open>The exception handler of the application (app/main.py)\<close>

text \<open>
  The flash message of the handler starts with the sign U+26D4, which is outside the
  8-bit range and stands here as its three UTF-8 bytes.
\<close>

definition forbidden_message :: string where
  "forbidden_message =
     [CHR 0xE2, CHR 0x9B, CHR 0x94] @ '' Keine Berechtigung f'' @ [CHR 0xFC]
       @ ''r diese Aktion.''"

text \<open>
  \<open>custom_http_exception_handler\<close> is registered for every \<open>HTTPException\<close>. A 403
  becomes a flash message and a redirect to the referer. Every other status is passed
  to \<open>app.default_exception_handler\<close>, an attribute the application object does not
  have: the access raises \<open>AttributeError\<close>. \<open>referer\<close> is the request header.
\<close>

definition custom_http_exception_handler ::
  "session \<Rightarrow> string option \<Rightarrow> int \<Rightarrow> (error + response) \<times> session" where
  "custom_http_exception_handler request referer status_code =
     (if status_code = 403
      then (Inr (RedirectResponse (case referer of None \<Rightarrow> ''/'' | Some r \<Rightarrow> r) 303),
            flash request forbidden_message ''danger'')
      else (Inl (AttributeError ''default_exception_handler''), request))"

text \<open>
  What the client gets for the outcome of a route handler: an \<open>HTTPException\<close> goes
  through the exception handler; the status of a template response is 200, that of a
  redirect is its code; an exception that leaves the application, also one raised
  inside the exception handler, is answered with 500 by the server.
\<close>

fun handle_exception :: "session \<Rightarrow> string option \<Rightarrow> error + response
    \<Rightarrow> (error + response) \<times> session" where
  "handle_exception request referer (Inl (HTTPException status_code)) =
     custom_http_exception_handler request referer status_code"
| "handle_exception request referer result = (result, request)"

fun status_of :: "error + response \<Rightarrow> int" where
  "status_of (Inr (TemplateResponse name err)) = 200"
| "status_of (Inr (RedirectResponse url code)) = code"
| "status_of (Inl e) = 500"

definition serve ::
  "string option \<Rightarrow> (error + response) \<times> database \<times> session
     \<Rightarrow> int \<times> database \<times> session" where
  "serve referer outcome =
     (case outcome of (result, db, request) \<Rightarrow>
        (case handle_exception request referer result of (result', request') \<Rightarrow>
           (status_of result', db, request')))"

section \<open>Login (app/routers/auth_routes.py)\<close>

text \<open>
  \<open>verify_password\<close> (app/auth.py) hands the password and the stored hash to passlib's
  \<open>pwd.verify\<close>, which answers a boolean or raises (for one, \<open>PasswordValueError\<close>, a
  \<open>ValueError\<close>, on a NUL byte in the password). \<open>pwd_verify\<close> is that library call, a
  parameter of the model.
\<close>

definition verify_password ::
  "(string \<Rightarrow> string \<Rightarrow> error + bool) \<Rightarrow> string \<Rightarrow> string \<Rightarrow> error + bool" where
  "verify_password pwd_verify p h = pwd_verify p h"

text \<open>
  The condition \<open>not row or not row["is_active"] or not verify_password(...)\<close> is
  evaluated from the left: the password is verified only for a row that exists and is
  active. \<open>not row["is_active"]\<close> holds for the integer 0.
\<close>

definition login ::
  "(string \<Rightarrow> string \<Rightarrow> error + bool) \<Rightarrow> database \<Rightarrow> session \<Rightarrow> string \<Rightarrow> string
     \<Rightarrow> (error + response) \<times> session" where
  "login pwd_verify db request username password =
     (case first (take 1 (filter (\<lambda>u. au_username u = username) (admin_users db))) of
        None \<Rightarrow>
          (Inr (TemplateResponse ''login.html'' (Some ''Login fehlgeschlagen.'')), request)
      | Some row \<Rightarrow>
          if au_is_active row = 0
          then (Inr (TemplateResponse ''login.html'' (Some ''Login fehlgeschlagen.'')),
                request)
          else
            (case verify_password pwd_verify password (au_password_hash row) of
               Inl e \<Rightarrow> (Inl e, request)
             | Inr ok \<Rightarrow>
                 if \<not> ok
                 then (Inr (TemplateResponse ''login.html'' (Some ''Login fehlgeschlagen.'')),
                       request)
                 else (Inr (RedirectResponse ''/tables'' 303),
                       request\<lparr>s_user_id := Some (au_id row)\<rparr>)))"

section \<open>Player handlers (app/routers/admin_players.py)\<close>

text \<open>\<open>str.strip()\<close>: whitespace code points below 256, removed at both ends.\<close>

definition isspace :: "char \<Rightarrow> bool" where
  "isspace c = (of_char c \<in> {9, 10, 11, 12, 13, 28, 29, 30, 31, 32, 133, 160 :: nat})"

definition strip :: "string \<Rightarrow> string" where
  "strip s = rev (dropWhile isspace (rev (dropWhile isspace s)))"



definition fields_list :: "string list" where
  "fields_list =
     [''name'', ''level'', ''pt'', ''cash'', ''bank'', ''address'', ''town'',
      ''birthday'', ''birthlocation'', ''eyecolor'', ''height'']"




text \<open>\<open>UPDATE ... SET ... WHERE ...\<close> on the rows of a table.\<close>

definition update_where :: "('r \<Rightarrow> bool) \<Rightarrow> ('r \<Rightarrow> 'r) \<Rightarrow> 'r list \<Rightarrow> 'r list" where
  "update_where cond assign rows = map (\<lambda>r. if cond r then assign r else r) rows"

text \<open>\<open>x or d\<close> on a string: the default for the empty string.\<close>

definition or_default :: "string \<Rightarrow> string \<Rightarrow> string" where
  "or_default x d = (if x = [] then d else x)"

definition support_update ::
  "database \<Rightarrow> session \<Rightarrow> string \<Rightarrow> int \<Rightarrow> string \<Rightarrow> string \<Rightarrow> string \<Rightarrow> string
     \<Rightarrow> string \<Rightarrow> string \<Rightarrow> (error + response) \<times> database \<times> session" where
  "support_update db request uid case_id case_type supporter_name area scn content status =
     (case require_admin db request of
        Inl e \<Rightarrow> (Inl e, db, request)
      | Inr _ \<Rightarrow>
          let status' = (if status \<notin> {''open'', ''closed''} then ''open'' else status);
              db' = db\<lparr>support_cases :=
                      update_where (\<lambda>c. sc_id c = case_id \<and> sc_player_pid c = uid)
                        (\<lambda>c. c\<lparr>sc_case_type := strip case_type,
                               sc_area := strip (or_default area ''Support''),
                               sc_supporter_name := strip supporter_name,
                               sc_scn := Some (strip (or_default scn [])),
                               sc_content := Some (or_default content []),
                               sc_status := status'\<rparr>)
                        (support_cases db)\<rparr>
          in (Inr (RedirectResponse (''/admin/players/'' @ uid @ ''?tab=support'') 303),
              db', flash request ''Supportfall gespeichert.'' ''success''))"

text \<open>\<open>CASE WHEN status='open' THEN 'closed' ELSE 'open' END\<close>\<close>

definition toggled :: "string \<Rightarrow> string" where
  "toggled status = (if status = ''open'' then ''closed'' else ''open'')"

definition support_toggle_status ::
  "database \<Rightarrow> session \<Rightarrow> string \<Rightarrow> int \<Rightarrow> (error + response) \<times> database \<times> session" where
  "support_toggle_status db request uid case_id =
     (case require_admin db request of
        Inl e \<Rightarrow> (Inl e, db, request)
      | Inr _ \<Rightarrow>
          let db' = db\<lparr>support_cases :=
                      update_where (\<lambda>c. sc_id c = case_id \<and> sc_player_pid c = uid)
                        (\<lambda>c. c\<lparr>sc_status := toggled (sc_status c)\<rparr>)
                        (support_cases db)\<rparr>
          in (Inr (RedirectResponse (''/admin/players/'' @ uid @ ''?tab=support'') 303),
              db', flash request (''Status ge'' @ [CHR 0xE4] @ ''ndert.'') ''info''))"

definition allowed :: "string set" where
  "allowed = {''restore'', ''lock'', ''unlock'', ''sell'', ''unsell'', ''kill'', ''revive''}"

text \<open>The dictionary \<open>sets\<close>: the assignments of each quick action's SET clause.\<close>

definition sets :: "(string \<times> (vehicle \<Rightarrow> vehicle)) list" where
  "sets =
     [(''restore'', \<lambda>v. v\<lparr>v_active := 1, v_sold := 0, v_alive := 1\<rparr>),
      (''lock'', \<lambda>v. v\<lparr>v_locked := 1\<rparr>),
      (''unlock'', \<lambda>v. v\<lparr>v_locked := 0\<rparr>),
      (''sell'', \<lambda>v. v\<lparr>v_sold := 1\<rparr>),
      (''unsell'', \<lambda>v. v\<lparr>v_sold := 0\<rparr>),
      (''kill'', \<lambda>v. v\<lparr>v_alive := 0\<rparr>),
      (''revive'', \<lambda>v. v\<lparr>v_alive := 1\<rparr>)]"

text \<open>
  \<open>now\<close> is the server's \<open>CURRENT_TIMESTAMP\<close>. The owner is read back with
  \<open>.scalar()\<close>, which is \<open>None\<close> when no row has the id.
\<close>

definition vehicle_quick_action ::
  "database \<Rightarrow> session \<Rightarrow> int \<Rightarrow> int \<Rightarrow> string
     \<Rightarrow> (error + response) \<times> database \<times> session" where
  "vehicle_quick_action db request now vehicle_id action =
     (case require_admin db request of
        Inl e \<Rightarrow> (Inl e, db, request)
      | Inr _ \<Rightarrow>
          if action \<notin> allowed then (Inl (HTTPException 400), db, request)
          else
            (case map_of sets action of
              None \<Rightarrow> (Inl (KeyError action), db, request)
            | Some assign \<Rightarrow>
                let db' = db\<lparr>vehicles :=
                            update_where (\<lambda>v. v_id v = vehicle_id)
                              (\<lambda>v. (assign v)\<lparr>v_ts_modified := now\<rparr>)
                              (vehicles db)\<rparr>;
                    pid = (case first (filter (\<lambda>v. v_id v = vehicle_id) (vehicles db')) of
                             None \<Rightarrow> ''None'' | Some v \<Rightarrow> v_pid v)
                in (Inr (RedirectResponse (''/admin/players/'' @ pid @ ''?tab=vehicles'') 303),
                    db', flash request (''Quick-Action: '' @ action) ''info'')))"

section \<open>Dynamic table access (app/crud_dynamic.py)\<close>

text \<open>
  A reflected \<open>Table\<close> is its name and its columns, each with the attributes the
  reflection gives it; a Python dictionary with string keys and the row of an
  arbitrary table are association lists read with \<open>map_of\<close>. A statement is built
  first and executed afterwards.
\<close>

record column =
  c_name :: string
  c_primary_key :: bool
  c_nullable :: bool
  c_has_default :: bool

record table =
  t_name :: string
  t_columns :: "column list"

type_synonym pydict = "(string \<times> string) list"

datatype stmt =
    Insert table pydict
  | Update table pydict pydict
  | Delete table pydict

text \<open>
  The session \<open>db\<close> of these functions: the rows of every table, the statements the
  database has carried out, and \<open>rejects\<close>, the verdict of statement compilation and
  database server on a statement in the current state of the tables: \<open>None\<close> accepts
  it, an error is raised by \<open>db.execute\<close>. The server is not code of the repository, so
  its verdict is a component of the store and every property below holds for every
  server.
\<close>

record store =
  rows_of :: "string \<Rightarrow> pydict list"
  executed :: "stmt list"
  rejects :: "(string \<Rightarrow> pydict list) \<Rightarrow> stmt \<Rightarrow> error option"

text \<open>The conjunction of equalities \<open>and_(*conds)\<close> on a row; \<open>SET\<close> on a row.\<close>

definition matches :: "pydict \<Rightarrow> pydict \<Rightarrow> bool" where
  "matches conds row = list_all (\<lambda>(c, v). map_of row c = Some v) conds"

definition assign_values :: "pydict \<Rightarrow> pydict \<Rightarrow> pydict" where
  "assign_values vals row = vals @ filter (\<lambda>(k, _). k \<notin> fst ` set vals) row"

text \<open>What an accepted statement does to the tables.\<close>

fun effect :: "stmt \<Rightarrow> (string \<Rightarrow> pydict list) \<Rightarrow> (string \<Rightarrow> pydict list)" where
  "effect (Insert t vals) rows = rows(t_name t := rows (t_name t) @ [vals])"
| "effect (Update t conds vals) rows =
     rows(t_name t :=
       map (\<lambda>r. if matches conds r then assign_values vals r else r) (rows (t_name t)))"
| "effect (Delete t conds) rows =
     rows(t_name t := filter (\<lambda>r. \<not> matches conds r) (rows (t_name t)))"

text \<open>
  \<open>db.execute(stmt)\<close> followed by \<open>db.commit()\<close>: a rejected statement raises and
  leaves the tables as they were.
\<close>

definition execute :: "stmt \<Rightarrow> store \<Rightarrow> error + store" where
  "execute stmt db =
     (case rejects db (rows_of db) stmt of
        Some e \<Rightarrow> Inl e
      | None \<Rightarrow>
          Inr (db\<lparr>rows_of := effect stmt (rows_of db), executed := executed db @ [stmt]\<rparr>))"

definition primary_key_columns :: "table \<Rightarrow> column list" where
  "primary_key_columns t = filter c_primary_key (t_columns t)"

fun conds_loop :: "column list \<Rightarrow> pydict \<Rightarrow> pydict \<Rightarrow> error + pydict" where
  "conds_loop [] pk_values conds = Inr conds"
| "conds_loop (c # cs) pk_values conds =
     (case map_of pk_values (c_name c) of
        None \<Rightarrow> Inl (ValueError (''PK-Spalte fehlt: '' @ c_name c))
      | Some v \<Rightarrow> conds_loop cs pk_values (conds @ [(c_name c, v)]))"

definition row_identity_filter :: "table \<Rightarrow> pydict \<Rightarrow> error + pydict" where
  "row_identity_filter t pk_values =
     (let pks = primary_key_columns t in
      if pks = []
      then Inl (ValueError
             ''Tabelle hat keinen PRIMARY KEY; Edit/Delete ist unsicher. Bitte PK anlegen.'')
      else conds_loop pks pk_values [])"

text \<open>\<open>k in t.c\<close>: the key names a column of the table.\<close>

definition in_columns :: "string \<Rightarrow> table \<Rightarrow> bool" where
  "in_columns k t = (k \<in> set (map c_name (t_columns t)))"

text \<open>
  None of the three functions catches an exception: an error of \<open>db.execute\<close> leaves
  the function as it is raised.
\<close>

definition create_row :: "store \<Rightarrow> table \<Rightarrow> pydict \<Rightarrow> (error + unit) \<times> store" where
  "create_row db t data =
     (let payload = filter (\<lambda>(k, v). in_columns k t) data;
          stmt = Insert t payload
      in case execute stmt db of
           Inl e \<Rightarrow> (Inl e, db)
         | Inr db' \<Rightarrow> (Inr (), db'))"

definition update_row ::
  "store \<Rightarrow> table \<Rightarrow> pydict \<Rightarrow> pydict \<Rightarrow> (error + unit) \<times> store" where
  "update_row db t pk_values data =
     (let payload = filter (\<lambda>(k, v). in_columns k t \<and> k \<notin> fst ` set pk_values) data in
      case row_identity_filter t pk_values of
        Inl e \<Rightarrow> (Inl e, db)
      | Inr w \<Rightarrow>
          (case execute (Update t w payload) db of
             Inl e \<Rightarrow> (Inl e, db)
           | Inr db' \<Rightarrow> (Inr (), db')))"

definition delete_row :: "store \<Rightarrow> table \<Rightarrow> pydict \<Rightarrow> (error + unit) \<times> store" where
  "delete_row db t pk_values =
     (case row_identity_filter t pk_values of
        Inl e \<Rightarrow> (Inl e, db)
      | Inr w \<Rightarrow>
          (case execute (Delete t w) db of
             Inl e \<Rightarrow> (Inl e, db)
           | Inr db' \<Rightarrow> (Inr (), db')))"

section \<open>Predicates used in the statements and example data\<close>

text \<open>
  \<open>db_admin_only\<close>: user 1 holds the role \<open>admin\<close> and no permission row exists.
  \<open>db_viewer\<close>: user 7 holds the role \<open>support\<close>, which may view \<open>plog\<close> and
  nothing else.
\<close>

definition no_rows :: database where
  "no_rows =
     \<lparr>admin_users = [], admin_roles = [], admin_user_roles = [], admin_permissions = [],
      admin_panel_permissions = [], admin_kv_permissions = [], kvstore = Map.empty,
      support_cases = [], vehicles = []\<rparr>"

definition db_admin_only :: database where
  "db_admin_only =
     no_rows\<lparr>admin_roles := [\<lparr>ar_id = 1, ar_name = ''admin''\<rparr>],
             admin_user_roles := [\<lparr>ur_user_id = 1, ur_role_id = 1\<rparr>]\<rparr>"

definition db_viewer :: database where
  "db_viewer =
     no_rows\<lparr>admin_roles := [\<lparr>ar_id = 2, ar_name = ''support''\<rparr>],
             admin_user_roles := [\<lparr>ur_user_id = 7, ur_role_id = 2\<rparr>],
             admin_permissions :=
               [\<lparr>p_role_id = 2, p_table_name = ''plog'', p_can_view = 1, p_can_create = 0,
                 p_can_update = 0, p_can_delete = 0\<rparr>]\<rparr>"

text \<open>
  \<open>db_users\<close>: alice is active, bob is deactivated. \<open>pwd_marked\<close> stands for
  \<open>pwd.verify\<close>: it raises on a NUL byte in the password, as passlib does, and
  otherwise accepts the hash that is the password behind a mark. \<open>login_failed\<close> is
  the page of a failed login.
\<close>

definition login_failed :: response where
  "login_failed = TemplateResponse ''login.html'' (Some ''Login fehlgeschlagen.'')"

definition db_users :: database where
  "db_users =
     no_rows\<lparr>admin_users :=
       [\<lparr>au_id = 1, au_username = ''alice'', au_password_hash = ''#secret'', au_is_active = 1\<rparr>,
        \<lparr>au_id = 2, au_username = ''bob'', au_password_hash = ''#hunter2'', au_is_active = 0\<rparr>]\<rparr>"

definition pwd_marked :: "string \<Rightarrow> string \<Rightarrow> error + bool" where
  "pwd_marked p h =
     (if CHR 0x00 \<in> set p then Inl (ValueError ''NUL byte in password'')
      else Inr (h = ''#'' @ p))"

definition nul_password :: string where
  "nul_password = [CHR ''x'', CHR 0x00]"

definition anonymous :: session where
  "anonymous = \<lparr>s_user_id = None, s_flash = []\<rparr>"

text \<open>Two toggle requests in a row: the second runs on the database and session the
  first one left.\<close>

definition toggle_twice :: "database \<Rightarrow> session \<Rightarrow> string \<Rightarrow> int \<Rightarrow> database" where
  "toggle_twice db request uid case_id =
     (let (r1, db1, request1) = support_toggle_status db request uid case_id;
          (r2, db2, request2) = support_toggle_status db1 request1 uid case_id
      in db2)"

text \<open>
  \<open>db_cases\<close>: the admin of \<open>db_admin_only\<close>, two support cases of player \<open>p1\<close> (one
  with a status written through the generic table editor) and one vehicle.
  \<open>admin_session\<close> is the session of user 1.
\<close>

definition case_pending :: support_case where
  "case_pending =
     \<lparr>sc_id = 5, sc_player_pid = ''p1'', sc_player_name = Some ''Bob'',
      sc_case_type = ''refund'', sc_area = ''Support'', sc_supporter_name = ''Eve'',
      sc_scn = None, sc_content = None, sc_status = ''pending''\<rparr>"

definition case_open :: support_case where
  "case_open = case_pending\<lparr>sc_id := 6, sc_status := ''open''\<rparr>"

definition car :: vehicle where
  "car =
     \<lparr>v_id = 3, v_side = ''civ'', v_classname = ''C_SUV_01_F'', v_type = ''Car'',
      v_pid = ''p1'', v_alive = 1, v_active = 0, v_sold = 0, v_locked = 0, v_color = 2,
      v_trunk = ''[]'', v_chip = 0, v_ts_bought = 100, v_ts_modified = 100\<rparr>"

definition db_cases :: database where
  "db_cases = db_admin_only\<lparr>support_cases := [case_pending, case_open], vehicles := [car]\<rparr>"

definition admin_session :: session where
  "admin_session = \<lparr>s_user_id = Some 1, s_flash = []\<rparr>"






text \<open>
  The submitted entries whose keys are columns of the table, in the order submitted.
\<close>

definition known_entries :: "table \<Rightarrow> pydict \<Rightarrow> pydict" where
  "known_entries t data = filter (\<lambda>(k, v). k \<in> c_name ` set (t_columns t)) data"

text \<open>
  \<open>strict_server\<close> is a server as MySQL is in its default mode: an insert is rejected
  when it leaves out a \<open>NOT NULL\<close> column that has no default, or when it supplies the
  whole primary key of a row that exists; an update without assignments is rejected.
\<close>

definition strict_server :: "(string \<Rightarrow> pydict list) \<Rightarrow> stmt \<Rightarrow> error option" where
  "strict_server rows stmt =
     (case stmt of
        Insert t vals \<Rightarrow>
          if \<exists>c\<in>set (t_columns t).
               \<not> c_nullable c \<and> \<not> c_has_default c \<and> map_of vals (c_name c) = None
          then Some (SQLAlchemyError ''OperationalError: field without default value'')
          else if primary_key_columns t \<noteq> [] \<and>
                  (\<exists>r\<in>set (rows (t_name t)). \<forall>c\<in>set (primary_key_columns t).
                     map_of vals (c_name c) \<noteq> None \<and>
                     map_of r (c_name c) = map_of vals (c_name c))
          then Some (SQLAlchemyError ''IntegrityError: duplicate entry for the primary key'')
          else None
      | Update t conds vals \<Rightarrow>
          if vals = [] then Some (SQLAlchemyError ''UPDATE without assignments'') else None
      | Delete t conds \<Rightarrow> None)"

text \<open>
  \<open>t_plog\<close> has no primary key; \<open>t_players\<close> has the primary key \<open>(pid, side)\<close> and a
  nullable column \<open>name\<close>. \<open>store_players\<close> holds one row of \<open>players\<close> on a strict
  server.
\<close>

definition t_plog :: table where
  "t_plog =
     \<lparr>t_name = ''plog'',
      t_columns =
        [\<lparr>c_name = ''ts'', c_primary_key = False, c_nullable = False, c_has_default = True\<rparr>,
         \<lparr>c_name = ''msg'', c_primary_key = False, c_nullable = True,
           c_has_default = False\<rparr>]\<rparr>"

definition t_players :: table where
  "t_players =
     \<lparr>t_name = ''players'',
      t_columns =
        [\<lparr>c_name = ''pid'', c_primary_key = True, c_nullable = False, c_has_default = False\<rparr>,
         \<lparr>c_name = ''side'', c_primary_key = True, c_nullable = False, c_has_default = False\<rparr>,
         \<lparr>c_name = ''name'', c_primary_key = False, c_nullable = True,
           c_has_default = False\<rparr>]\<rparr>"

definition store_players :: store where
  "store_players =
     \<lparr>rows_of = (\<lambda>tn. if tn = ''players''
                          then [[(''pid'', ''p1''), (''side'', ''0''), (''name'', ''Bob'')]]
                          else []),
      executed = [],
      rejects = strict_server\<rparr>"

section \<open>Properties of the permission checks\<close>

lemma bool_row_first_take: "bool_row (first (take 1 xs)) = (xs \<noteq> [])"
  by (cases xs) (simp_all add: bool_row_def first_def)

lemma join_nonempty:
  "([e. x \<leftarrow> xs, y \<leftarrow> ys, P x y, Q x y] \<noteq> []) =
     (\<exists>x\<in>set xs. \<exists>y\<in>set ys. P x y \<and> Q x y)"
proof -
  have "([e. x \<leftarrow> xs, y \<leftarrow> ys, P x y, Q x y] \<noteq> []) =
        (set [e. x \<leftarrow> xs, y \<leftarrow> ys, P x y, Q x y] \<noteq> {})"
    by (simp only: set_empty)
  also have "\<dots> = (\<exists>x\<in>set xs. \<exists>y\<in>set ys. P x y \<and> Q x y)"
    by auto
  finally show ?thesis .
qed

lemma exists_query:
  "bool_row (first (take 1 [e. x \<leftarrow> xs, y \<leftarrow> ys, P x y, Q x y])) =
     (\<exists>x\<in>set xs. \<exists>y\<in>set ys. P x y \<and> Q x y)"
  unfolding bool_row_first_take join_nonempty ..

lemma map_of_ACTION_COL:
  "map_of ACTION_COL a =
     (if a = ''view'' then Some ''can_view''
      else if a = ''create'' then Some ''can_create''
      else if a = ''update'' then Some ''can_update''
      else if a = ''delete'' then Some ''can_delete'' else None)"
  by (simp add: ACTION_COL_def)


lemma can_query:
  "can db uid t a =
     (\<exists>col. map_of ACTION_COL a = Some col \<and>
        (\<exists>ur\<in>set (admin_user_roles db). \<exists>p\<in>set (admin_permissions db).
           p_role_id p = ur_role_id ur \<and> ur_user_id ur = uid \<and> p_table_name p = t \<and>
           permission_col col p = Some 1))"
  unfolding can_def exists_query by (simp split: option.splits)

lemma can_admin_panel_query:
  "can_admin_panel db uid a =
     (\<exists>col. map_of ADMIN_ACTION_COL a = Some col \<and>
        (\<exists>ur\<in>set (admin_user_roles db). \<exists>ap\<in>set (admin_panel_permissions db).
           ap_role_id ap = ur_role_id ur \<and> ur_user_id ur = uid \<and> panel_col col ap = Some 1))"
  unfolding can_admin_panel_def exists_query by (simp split: option.splits)

text \<open>
  Claim C2. \<open>can\<close> is true exactly when the action is one of view, create, update,
  delete and some role of the user has a row of \<open>admin_permissions\<close> for the table
  whose flag for that action is 1. The function has no error branch: an unknown action
  and the absence of a matching row both give \<open>False\<close>.
\<close>

theorem can_iff_permission_row:
  "can db uid t a =
     (a \<in> {''view'', ''create'', ''update'', ''delete''} \<and>
      (\<exists>ur\<in>set (admin_user_roles db). \<exists>p\<in>set (admin_permissions db).
        p_role_id p = ur_role_id ur \<and> ur_user_id ur = uid \<and> p_table_name p = t \<and>
        (a = ''view'' \<and> p_can_view p = 1 \<or> a = ''create'' \<and> p_can_create p = 1 \<or>
         a = ''update'' \<and> p_can_update p = 1 \<or> a = ''delete'' \<and> p_can_delete p = 1)))"
proof (cases "a \<in> {''view'', ''create'', ''update'', ''delete''}")
  case False
  then have "map_of ACTION_COL a = None" by (simp add: map_of_ACTION_COL)
  with False show ?thesis by (simp add: can_query)
next
  case True
  then consider "a = ''view''" | "a = ''create''" | "a = ''update''" | "a = ''delete''"
    by blast
  then show ?thesis
    by cases (simp_all add: can_query map_of_ACTION_COL permission_col_def)
qed

theorem can_iff_permission_row_witness:
  "can db_viewer 7 ''plog'' ''view'' \<and> \<not> can db_viewer 7 ''plog'' ''create''
     \<and> \<not> can db_viewer 7 ''plog'' ''drop'' \<and> \<not> can db_viewer 8 ''plog'' ''view''"
  using can_iff_permission_row [of db_viewer 7 "''plog''" "''view''"]
        can_iff_permission_row [of db_viewer 7 "''plog''" "''create''"]
        can_iff_permission_row [of db_viewer 7 "''plog''" "''drop''"]
        can_iff_permission_row [of db_viewer 8 "''plog''" "''view''"]
  by (simp add: db_viewer_def no_rows_def)

lemma KV_FIELDS_whitelist:
  "KV_FIELDS = set fields_list" "distinct fields_list" "length fields_list = 11"
  by (simp_all add: KV_FIELDS_def fields_list_def insert_commute)

lemma is_admin_iff:
  "is_admin db uid =
     (\<exists>ur\<in>set (admin_user_roles db). \<exists>r\<in>set (admin_roles db).
        ar_id r = ur_role_id ur \<and> ur_user_id ur = uid \<and> ar_name r = ''admin'')"
  unfolding is_admin_def exists_query ..

text \<open>
  Claim C4. For a user holding the role \<open>admin\<close>, a side in 0, 1, 2 and a field of
  \<open>KV_FIELDS\<close>, \<open>can_kv_field\<close> is true whatever \<open>admin_kv_permissions\<close> holds.
\<close>

theorem can_kv_field_admin:
  assumes "is_admin db uid" and "side \<in> {0, 1, 2}" and "field_name \<in> KV_FIELDS"
  shows "can_kv_field db uid side field_name"
  using assms by (simp add: can_kv_field_def)

theorem can_kv_field_admin_witness:
  "is_admin db_admin_only 1 \<and> (2::int) \<in> {0, 1, 2} \<and> ''cash'' \<in> KV_FIELDS
     \<and> admin_kv_permissions db_admin_only = []
     \<and> can_kv_field db_admin_only 1 2 ''cash''"
proof -
  have a: "is_admin db_admin_only 1"
    by (simp add: is_admin_iff db_admin_only_def no_rows_def)
  have s: "(2::int) \<in> {0, 1, 2}" by simp
  have f: "''cash'' \<in> KV_FIELDS" by (simp add: KV_FIELDS_def)
  from can_kv_field_admin [OF a s f] a s f show ?thesis
    by (simp add: db_admin_only_def no_rows_def)
qed

text \<open>
  Claim C10. For every user, the admin included, \<open>can_kv_field\<close> is false when the
  side is not 0, 1 or 2 or the field is not in \<open>KV_FIELDS\<close>: both tests come before
  the admin short-circuit. \<open>KV_FIELDS_whitelist\<close> shows that \<open>KV_FIELDS\<close> is the
  set of the eleven names of the form.
\<close>

theorem can_kv_field_validates_first:
  assumes "side \<notin> {0, 1, 2} \<or> field_name \<notin> KV_FIELDS"
  shows "\<not> can_kv_field db uid side field_name"
  using assms by (auto simp: can_kv_field_def)

theorem can_kv_field_validates_first_witness:
  "is_admin db_admin_only 1 \<and> ''licenses'' \<notin> KV_FIELDS
     \<and> \<not> can_kv_field db_admin_only 1 0 ''licenses''
     \<and> \<not> can_kv_field db_admin_only 1 3 ''name''"
proof -
  have a: "is_admin db_admin_only 1"
    by (simp add: is_admin_iff db_admin_only_def no_rows_def)
  have f: "''licenses'' \<notin> KV_FIELDS" by (simp add: KV_FIELDS_def)
  have s: "(3::int) \<notin> {0, 1, 2}" by simp
  from can_kv_field_validates_first [of 0 "''licenses''" db_admin_only 1]
       can_kv_field_validates_first [of 3 "''name''" db_admin_only 1] a f s
  show ?thesis by simp
qed

text \<open>
  Claim C3, as stated, fails: in \<open>db_admin_only\<close> user 1 holds the role \<open>admin\<close>,
  yet \<open>can\<close> and \<open>can_admin_panel\<close> deny, because neither function looks at the role
  name (the docstring of \<open>can\<close> says so).
\<close>

theorem admin_can_counterexample:
  "is_admin db_admin_only 1 \<and> \<not> can db_admin_only 1 ''plog'' ''view''
     \<and> \<not> can_admin_panel db_admin_only 1 ''user_create''"
  by (simp add: is_admin_iff can_query can_admin_panel_query db_admin_only_def no_rows_def)

text \<open>
  Claim C3, amended. For a user holding the role \<open>admin\<close> the admin-panel checks
  pass whatever the permission rows are: the handler check
  \<open>is_admin(db, uid) or can_admin_panel(db, uid, action)\<close> is true for every action
  and \<open>require_admin\<close> admits the user (a session id other than 0). \<open>can\<close> and
  \<open>can_admin_panel\<close> themselves have no admin bypass: when no role of the user has a
  permission row for the table, respectively a panel row, they deny the admin too.
\<close>

theorem admin_role_admitted:
  assumes "is_admin db uid"
  shows "panel_check db uid action \<and>
         (uid \<noteq> 0 \<longrightarrow> require_admin db (request\<lparr>s_user_id := Some uid\<rparr>) = Inr uid) \<and>
         ((\<forall>ur\<in>set (admin_user_roles db). \<forall>p\<in>set (admin_permissions db).
             ur_user_id ur = uid \<and> p_table_name p = t \<longrightarrow> p_role_id p \<noteq> ur_role_id ur)
            \<longrightarrow> \<not> can db uid t a) \<and>
         ((\<forall>ur\<in>set (admin_user_roles db). \<forall>ap\<in>set (admin_panel_permissions db).
             ur_user_id ur = uid \<longrightarrow> ap_role_id ap \<noteq> ur_role_id ur)
            \<longrightarrow> \<not> can_admin_panel db uid action)"
proof -
  have g: "panel_check db uid action"
    using assms by (simp add: panel_check_def)
  have r: "uid \<noteq> 0 \<longrightarrow> require_admin db (request\<lparr>s_user_id := Some uid\<rparr>) = Inr uid"
    using assms by (simp add: require_admin_def get_user_id_def)
  have c: "(\<forall>ur\<in>set (admin_user_roles db). \<forall>p\<in>set (admin_permissions db).
             ur_user_id ur = uid \<and> p_table_name p = t \<longrightarrow> p_role_id p \<noteq> ur_role_id ur)
            \<longrightarrow> \<not> can db uid t a"
    unfolding can_query by blast
  have p: "(\<forall>ur\<in>set (admin_user_roles db). \<forall>ap\<in>set (admin_panel_permissions db).
             ur_user_id ur = uid \<longrightarrow> ap_role_id ap \<noteq> ur_role_id ur)
            \<longrightarrow> \<not> can_admin_panel db uid action"
    unfolding can_admin_panel_query by blast
  from g r c p show ?thesis by blast
qed

theorem admin_role_admitted_witness:
  "is_admin db_admin_only 1 \<and> panel_check db_admin_only 1 ''permissions_edit''
     \<and> require_admin db_admin_only \<lparr>s_user_id = Some 1, s_flash = []\<rparr> = Inr 1
     \<and> \<not> can db_admin_only 1 ''plog'' ''delete''
     \<and> \<not> can_admin_panel db_admin_only 1 ''permissions_edit''"
proof -
  have a: "is_admin db_admin_only 1"
    by (simp add: is_admin_iff db_admin_only_def no_rows_def)
  from admin_role_admitted [OF a, of "''permissions_edit''"
         "\<lparr>s_user_id = None, s_flash = []\<rparr>" "''plog''" "''delete''"] a
  show ?thesis by (simp add: db_admin_only_def no_rows_def)
qed

section \<open>Properties of the login\<close>

lemma first_take_filter: "first (take 1 (filter P xs)) = find P xs"
  by (induction xs) (simp_all add: first_def)

lemma login_cases:
  "login pwd_verify db s u p =
     (case find (\<lambda>r. au_username r = u) (admin_users db) of
        None \<Rightarrow> (Inr login_failed, s)
      | Some row \<Rightarrow>
          if au_is_active row = 0 then (Inr login_failed, s)
          else
            (case pwd_verify p (au_password_hash row) of
               Inl e \<Rightarrow> (Inl e, s)
             | Inr ok \<Rightarrow>
                 if ok then (Inr (RedirectResponse ''/tables'' 303),
                             s\<lparr>s_user_id := Some (au_id row)\<rparr>)
                 else (Inr login_failed, s)))"
  unfolding login_def first_take_filter login_failed_def verify_password_def
  by (simp split: option.splits sum.splits)

lemma login_examples:
  "login pwd_marked db_users anonymous ''carol'' ''guess'' = (Inr login_failed, anonymous)"
  "login pwd_marked db_users anonymous ''bob'' ''hunter2'' = (Inr login_failed, anonymous)"
  "login pwd_marked db_users anonymous ''alice'' ''guess'' = (Inr login_failed, anonymous)"
  "login pwd_marked db_users anonymous ''alice'' ''secret''
     = (Inr (RedirectResponse ''/tables'' 303), anonymous\<lparr>s_user_id := Some 1\<rparr>)"
  by (simp_all add: login_cases pwd_marked_def db_users_def no_rows_def)

text \<open>
  Claim C8 fails on the code. The page \<open>login.html\<close> with \<open>Login fehlgeschlagen.\<close> is
  what an attempt gets for an unknown username, for a deactivated account and for a
  password that \<open>pwd.verify\<close> refuses; but the password is verified only for an active
  account, and \<open>pwd.verify\<close> raises on a password holding a NUL byte, which \<open>login\<close>
  does not catch. With the same password, the active account of alice is answered with
  500, the deactivated account of bob and the unknown carol with the page of a failed
  login: the response tells an active account from a deactivated one.
\<close>

theorem login_nul_password_distinguishes:
  "login pwd_marked db_users anonymous ''alice'' nul_password
     = (Inl (ValueError ''NUL byte in password''), anonymous) \<and>
   login pwd_marked db_users anonymous ''bob'' nul_password = (Inr login_failed, anonymous) \<and>
   login pwd_marked db_users anonymous ''carol'' nul_password = (Inr login_failed, anonymous) \<and>
   status_of (fst (login pwd_marked db_users anonymous ''alice'' nul_password)) = 500 \<and>
   status_of (fst (login pwd_marked db_users anonymous ''bob'' nul_password)) = 200"
proof -
  have a: "login pwd_marked db_users anonymous ''alice'' nul_password
             = (Inl (ValueError ''NUL byte in password''), anonymous)"
    by (simp add: login_cases pwd_marked_def nul_password_def db_users_def no_rows_def)
  have b: "login pwd_marked db_users anonymous ''bob'' nul_password = (Inr login_failed, anonymous)"
    by (simp add: login_cases db_users_def no_rows_def)
  have c: "login pwd_marked db_users anonymous ''carol'' nul_password
             = (Inr login_failed, anonymous)"
    by (simp add: login_cases db_users_def no_rows_def)
  from a b c show ?thesis by (simp add: login_failed_def)
qed

section \<open>Properties of the support-case and vehicle handlers\<close>

lemma is_admin_support_cases [simp]:
  "is_admin (db\<lparr>support_cases := cs\<rparr>) uid = is_admin db uid"
  by (simp add: is_admin_iff)

lemma can_admin_panel_support_cases [simp]:
  "can_admin_panel (db\<lparr>support_cases := cs\<rparr>) uid a = can_admin_panel db uid a"
  by (simp add: can_admin_panel_query)

lemma require_admin_support_cases [simp]:
  "require_admin (db\<lparr>support_cases := cs\<rparr>) request = require_admin db request"
  by (simp add: require_admin_def split: option.splits)

lemma require_admin_flash [simp]:
  "require_admin db (flash request m c) = require_admin db request"
  by (simp add: require_admin_def flash_def get_user_id_def split: option.splits)

lemma require_admin_codes:
  "require_admin db request = Inl e \<Longrightarrow> e = HTTPException 401 \<or> e = HTTPException 403"
  by (auto simp: require_admin_def split: option.splits if_splits)

lemma toggled_toggled: "s \<in> {''open'', ''closed''} \<Longrightarrow> toggled (toggled s) = s"
  by (auto simp: toggled_def)

lemma toggled_range: "toggled s \<in> {''open'', ''closed''}"
  by (simp add: toggled_def)

lemma update_where_twice:
  assumes "\<And>r. cond (g r) = cond r"
  shows "update_where cond f (update_where cond g rows) = update_where cond (f \<circ> g) rows"
  using assms by (simp add: update_where_def)

lemma update_where_id:
  assumes "\<And>r. r \<in> set rows \<Longrightarrow> cond r \<Longrightarrow> f r = r"
  shows "update_where cond f rows = rows"
  using assms by (simp add: update_where_def map_idI)

lemma update_where_set:
  "c \<in> set (update_where cond f rows) \<Longrightarrow> cond c \<Longrightarrow> (\<And>r. cond (f r) = cond r)
     \<Longrightarrow> \<exists>r\<in>set rows. cond r \<and> c = f r"
  by (auto simp: update_where_def split: if_splits)

lemma toggle_twice_cases:
  "support_cases (toggle_twice db request uid case_id) =
     (case require_admin db request of
        Inl e \<Rightarrow> support_cases db
      | Inr a \<Rightarrow>
          update_where (\<lambda>c. sc_id c = case_id \<and> sc_player_pid c = uid)
            (\<lambda>c. c\<lparr>sc_status := toggled (toggled (sc_status c))\<rparr>) (support_cases db))"
  by (simp add: toggle_twice_def support_toggle_status_def update_where_twice comp_def
        split: sum.splits)

lemma require_admin_db_cases: "require_admin db_cases admin_session = Inr 1"
  by (simp add: require_admin_def get_user_id_def admin_session_def is_admin_iff
        db_cases_def db_admin_only_def no_rows_def)

lemma support_cases_db_cases: "support_cases db_cases = [case_pending, case_open]"
  by (simp add: db_cases_def)

text \<open>
  Claim C6, as stated, fails: \<open>status\<close> is a free string column (\<open>String(32)\<close>), the
  generic table editor can store any value in it, and the toggle sends every value
  other than \<open>open\<close> to \<open>open\<close>. Case 5 of \<open>db_cases\<close> has the status \<open>pending\<close>;
  after two toggles by the admin it is \<open>closed\<close>.
\<close>

theorem toggle_twice_counterexample:
  "map sc_status (support_cases db_cases) = [''pending'', ''open''] \<and>
   map sc_status (support_cases (toggle_twice db_cases admin_session ''p1'' 5))
     = [''closed'', ''open'']"
  by (simp add: toggle_twice_cases require_admin_db_cases support_cases_db_cases
        update_where_def case_pending_def case_open_def toggled_def)

text \<open>
  Claim C6, amended. For a support case whose status is \<open>open\<close> or \<open>closed\<close>, two
  toggles in a row leave the stored cases as they were before the first. One toggle by
  an admitted user turns the status \<open>open\<close> of the case it addresses into \<open>closed\<close>
  and every other stored value into \<open>open\<close>, and touches no other case, so the
  addressed case then has a status in \<open>open\<close>, \<open>closed\<close>; a request that is not
  admitted changes nothing.
\<close>

theorem toggle_twice_restores:
  "((\<forall>c\<in>set (support_cases db). sc_id c = case_id \<and> sc_player_pid c = uid
        \<longrightarrow> sc_status c \<in> {''open'', ''closed''})
      \<longrightarrow> support_cases (toggle_twice db request uid case_id) = support_cases db) \<and>
   (require_admin db request = Inr a
      \<longrightarrow> (\<forall>c\<in>set (support_cases (fst (snd (support_toggle_status db request uid case_id)))).
            sc_id c = case_id \<and> sc_player_pid c = uid
              \<longrightarrow> sc_status c \<in> {''open'', ''closed''})) \<and>
   (require_admin db request = Inr a
      \<longrightarrow> support_cases (fst (snd (support_toggle_status db request uid case_id)))
            = map (\<lambda>c. if sc_id c = case_id \<and> sc_player_pid c = uid
                        then c\<lparr>sc_status :=
                                 (if sc_status c = ''open'' then ''closed'' else ''open'')\<rparr>
                        else c)
                  (support_cases db)) \<and>
   (require_admin db request = Inl e
      \<longrightarrow> support_toggle_status db request uid case_id = (Inl e, db, request))"
proof (intro conjI impI ballI)
  assume h: "\<forall>c\<in>set (support_cases db). sc_id c = case_id \<and> sc_player_pid c = uid
        \<longrightarrow> sc_status c \<in> {''open'', ''closed''}"
  show "support_cases (toggle_twice db request uid case_id) = support_cases db"
  proof (cases "require_admin db request")
    case (Inl e)
    then show ?thesis by (simp add: toggle_twice_cases)
  next
    case (Inr b)
    have "update_where (\<lambda>c. sc_id c = case_id \<and> sc_player_pid c = uid)
            (\<lambda>c. c\<lparr>sc_status := toggled (toggled (sc_status c))\<rparr>) (support_cases db)
          = support_cases db"
    proof (rule update_where_id)
      fix r assume "r \<in> set (support_cases db)" "sc_id r = case_id \<and> sc_player_pid r = uid"
      with h have "sc_status r \<in> {''open'', ''closed''}" by blast
      then show "r\<lparr>sc_status := toggled (toggled (sc_status r))\<rparr> = r"
        by (simp add: toggled_toggled)
    qed
    with Inr show ?thesis by (simp add: toggle_twice_cases)
  qed
next
  fix c
  assume g: "require_admin db request = Inr a"
    and c: "c \<in> set (support_cases (fst (snd (support_toggle_status db request uid case_id))))"
    and m: "sc_id c = case_id \<and> sc_player_pid c = uid"
  from g c have "c \<in> set (update_where (\<lambda>c. sc_id c = case_id \<and> sc_player_pid c = uid)
                     (\<lambda>c. c\<lparr>sc_status := toggled (sc_status c)\<rparr>) (support_cases db))"
    by (simp add: support_toggle_status_def)
  from update_where_set [OF this m] obtain r where "c = r\<lparr>sc_status := toggled (sc_status r)\<rparr>"
    by auto
  then show "sc_status c \<in> {''open'', ''closed''}"
    using toggled_range by simp
next
  assume "require_admin db request = Inr a"
  then show "support_cases (fst (snd (support_toggle_status db request uid case_id)))
            = map (\<lambda>c. if sc_id c = case_id \<and> sc_player_pid c = uid
                        then c\<lparr>sc_status :=
                                 (if sc_status c = ''open'' then ''closed'' else ''open'')\<rparr>
                        else c)
                  (support_cases db)"
    by (simp add: support_toggle_status_def update_where_def toggled_def)
next
  assume "require_admin db request = Inl e"
  then show "support_toggle_status db request uid case_id = (Inl e, db, request)"
    by (simp add: support_toggle_status_def)
qed

theorem toggle_twice_restores_witness:
  "require_admin db_cases admin_session = Inr 1 \<and>
   support_cases (toggle_twice db_cases admin_session ''p1'' 6) = support_cases db_cases \<and>
   map sc_status (support_cases (fst (snd (support_toggle_status db_cases admin_session ''p1'' 6))))
     = [''pending'', ''closed''] \<and>
   map sc_status (support_cases (fst (snd (support_toggle_status db_cases admin_session ''p1'' 5))))
     = [''open'', ''open''] \<and>
   require_admin db_cases anonymous = Inl (HTTPException 401) \<and>
   support_toggle_status db_cases anonymous ''p1'' 6 = (Inl (HTTPException 401), db_cases, anonymous)"
proof -
  have h: "\<forall>c\<in>set (support_cases db_cases). sc_id c = 6 \<and> sc_player_pid c = ''p1''
             \<longrightarrow> sc_status c \<in> {''open'', ''closed''}"
    by (simp add: support_cases_db_cases case_pending_def case_open_def)
  from toggle_twice_restores [of db_cases 6 "''p1''" admin_session 1] h
  have 1: "support_cases (toggle_twice db_cases admin_session ''p1'' 6) = support_cases db_cases"
    by blast
  from toggle_twice_restores [of db_cases 6 "''p1''" admin_session 1] require_admin_db_cases
  have "support_cases (fst (snd (support_toggle_status db_cases admin_session ''p1'' 6)))
            = map (\<lambda>c. if sc_id c = 6 \<and> sc_player_pid c = ''p1''
                        then c\<lparr>sc_status :=
                                 (if sc_status c = ''open'' then ''closed'' else ''open'')\<rparr>
                        else c)
                  (support_cases db_cases)"
    by blast
  then have 2: "map sc_status
       (support_cases (fst (snd (support_toggle_status db_cases admin_session ''p1'' 6))))
     = [''pending'', ''closed'']"
    by (simp add: support_cases_db_cases case_pending_def case_open_def)
  from toggle_twice_restores [of db_cases 5 "''p1''" admin_session 1] require_admin_db_cases
  have "support_cases (fst (snd (support_toggle_status db_cases admin_session ''p1'' 5)))
            = map (\<lambda>c. if sc_id c = 5 \<and> sc_player_pid c = ''p1''
                        then c\<lparr>sc_status :=
                                 (if sc_status c = ''open'' then ''closed'' else ''open'')\<rparr>
                        else c)
                  (support_cases db_cases)"
    by blast
  then have 3: "map sc_status
       (support_cases (fst (snd (support_toggle_status db_cases admin_session ''p1'' 5))))
     = [''open'', ''open'']"
    by (simp add: support_cases_db_cases case_pending_def case_open_def)
  have n: "require_admin db_cases anonymous = Inl (HTTPException 401)"
    by (simp add: require_admin_def get_user_id_def anonymous_def)
  from toggle_twice_restores [of db_cases 6 "''p1''" anonymous 1 "HTTPException 401"] n
  have 4: "support_toggle_status db_cases anonymous ''p1'' 6
             = (Inl (HTTPException 401), db_cases, anonymous)"
    by blast
  from require_admin_db_cases 1 2 3 n 4 show ?thesis by blast
qed

lemma support_update_coerces:
  assumes "status \<notin> {''open'', ''closed''}"
  shows "support_update db request uid case_id case_type supporter_name area scn content status
       = support_update db request uid case_id case_type supporter_name area scn content ''open''"
  using assms by (simp add: support_update_def)

lemma support_update_status:
  assumes g: "require_admin db request = Inr a"
    and c: "c \<in> set (support_cases (fst (snd
              (support_update db request uid case_id case_type supporter_name area scn content status))))"
    and m: "sc_id c = case_id \<and> sc_player_pid c = uid"
  shows "sc_status c = (if status \<in> {''open'', ''closed''} then status else ''open'')"
proof -
  let ?f = "\<lambda>c. c\<lparr>sc_case_type := strip case_type,
                     sc_area := strip (or_default area ''Support''),
                     sc_supporter_name := strip supporter_name,
                     sc_scn := Some (strip (or_default scn [])),
                     sc_content := Some (or_default content []),
                     sc_status := (if status \<notin> {''open'', ''closed''} then ''open'' else status)\<rparr>"
  from g c have "c \<in> set (update_where (\<lambda>c. sc_id c = case_id \<and> sc_player_pid c = uid) ?f
                   (support_cases db))"
    by (simp add: support_update_def Let_def)
  from update_where_set [OF this m] obtain r where "c = ?f r" by auto
  then show ?thesis by simp
qed

lemma quick_action_rejected:
  assumes "action \<notin> allowed"
  shows "vehicle_quick_action db request now vehicle_id action =
           (case require_admin db request of
              Inl e \<Rightarrow> (Inl e, db, request)
            | Inr a \<Rightarrow> (Inl (HTTPException 400), db, request))"
  using assms by (simp add: vehicle_quick_action_def split: sum.splits)

lemma quick_action_not_allowed:
  "vehicle_quick_action db_cases admin_session 200 3 ''explode''
     = (Inl (HTTPException 400), db_cases, admin_session)"
  by (simp add: quick_action_rejected allowed_def require_admin_db_cases)

text \<open>
  Claim C9 fails on the code in its second half. For an action name outside \<open>allowed\<close>
  the handler of an admitted request raises \<open>HTTPException(400)\<close> and modifies no
  vehicle, as the claim says; but the exception handler of the application passes
  every status other than 403 to an attribute that does not exist, so the request of
  the admin for the action \<open>explode\<close> is answered with 500 and not with 400. The first
  half holds: \<open>support_update_coerces\<close> and \<open>support_update_status\<close> above.
\<close>

theorem quick_action_answered_500:
  "''explode'' \<notin> allowed \<and>
   vehicle_quick_action db_cases admin_session 200 3 ''explode''
     = (Inl (HTTPException 400), db_cases, admin_session) \<and>
   custom_http_exception_handler admin_session None 400
     = (Inl (AttributeError ''default_exception_handler''), admin_session) \<and>
   serve None (vehicle_quick_action db_cases admin_session 200 3 ''explode'')
     = (500, db_cases, admin_session)"
  by (simp add: quick_action_not_allowed serve_def custom_http_exception_handler_def
        allowed_def)

section \<open>Properties of saving the per-faction info form\<close>

lemma is_admin_kvstore [simp]: "is_admin (db\<lparr>kvstore := k\<rparr>) uid = is_admin db uid"
  by (simp add: is_admin_iff)

lemma can_kv_field_query:
  "can_kv_field db uid side f =
     (side \<in> {0, 1, 2} \<and> f \<in> KV_FIELDS \<and>
      (is_admin db uid \<or>
       (\<exists>ur\<in>set (admin_user_roles db). \<exists>kp\<in>set (admin_kv_permissions db).
          kp_role_id kp = ur_role_id ur \<and>
          ur_user_id ur = uid \<and> kp_side kp = side \<and> kp_field_name kp = f \<and> kp_can_edit kp = 1)))"
  unfolding can_kv_field_def exists_query by auto

lemma can_kv_field_kvstore [simp]:
  "can_kv_field (db\<lparr>kvstore := k\<rparr>) uid side f = can_kv_field db uid side f"
  by (simp add: can_kv_field_query)













section \<open>Properties of the dynamic table access\<close>

lemma conds_loop_missing:
  assumes "\<exists>c\<in>set cs. c_name c \<notin> fst ` set pk_values"
  shows "\<exists>m. conds_loop cs pk_values conds = Inl (ValueError m)"
  using assms
proof (induction cs arbitrary: conds)
  case Nil
  then show ?case by simp
next
  case (Cons c cs)
  show ?case
  proof (cases "map_of pk_values (c_name c)")
    case None
    then show ?thesis by simp
  next
    case (Some v)
    then have "c_name c \<in> fst ` set pk_values"
      by (metis map_of_eq_None_iff option.distinct(1))
    with Cons.prems have "\<exists>c\<in>set cs. c_name c \<notin> fst ` set pk_values" by auto
    from Cons.IH [OF this] Some show ?thesis by simp
  qed
qed

lemma row_identity_filter_fails:
  assumes "primary_key_columns t = [] \<or>
           (\<exists>c\<in>set (primary_key_columns t). c_name c \<notin> fst ` set pk_values)"
  shows "\<exists>m. row_identity_filter t pk_values = Inl (ValueError m)"
proof (cases "primary_key_columns t = []")
  case True
  then show ?thesis by (simp add: row_identity_filter_def)
next
  case False
  with assms have "\<exists>c\<in>set (primary_key_columns t). c_name c \<notin> fst ` set pk_values" by simp
  from conds_loop_missing [OF this] False show ?thesis
    by (simp add: row_identity_filter_def)
qed

lemma t_players_facts:
  "t_name t_players = ''players''"
  "c_name ` set (t_columns t_players) = {''pid'', ''side'', ''name''}"
  by (simp_all add: t_players_def)

lemma row_identity_filter_example:
  "row_identity_filter t_players [(''pid'', ''p1''), (''side'', ''0'')]
     = Inr [(''pid'', ''p1''), (''side'', ''0'')]"
  by (simp add: row_identity_filter_def primary_key_columns_def t_players_def)

lemma update_delete_examples:
  "update_row store_players t_players [(''pid'', ''p1''), (''side'', ''0'')] [(''name'', ''Al'')]
     = (Inr (),
        store_players\<lparr>rows_of := (rows_of store_players)
            (''players'' := [[(''name'', ''Al''), (''pid'', ''p1''), (''side'', ''0'')]]),
          executed := [Update t_players [(''pid'', ''p1''), (''side'', ''0'')]
                         [(''name'', ''Al'')]]\<rparr>)"
  "update_row store_players t_players [(''pid'', ''p1''), (''side'', ''0'')] [(''csrf'', ''zz'')]
     = (Inl (SQLAlchemyError ''UPDATE without assignments''), store_players)"
  "delete_row store_players t_players [(''pid'', ''p1''), (''side'', ''0'')]
     = (Inr (),
        store_players\<lparr>rows_of := (rows_of store_players)(''players'' := []),
          executed := [Delete t_players [(''pid'', ''p1''), (''side'', ''0'')]]\<rparr>)"
  by (simp_all add: update_row_def delete_row_def execute_def row_identity_filter_example
        in_columns_def t_players_facts store_players_def strict_server_def matches_def
        assign_values_def)

text \<open>
  Claim C1. When the table has no primary-key column, or some primary-key column is
  missing from \<open>pk_values\<close>, \<open>update_row\<close> and \<open>delete_row\<close> raise \<open>ValueError\<close> and
  return the store as it was: no row is changed and no statement has been executed.
\<close>

theorem update_delete_fail_fast:
  assumes "primary_key_columns t = [] \<or>
           (\<exists>c\<in>set (primary_key_columns t). c_name c \<notin> fst ` set pk_values)"
  shows "(\<exists>m. update_row db t pk_values data = (Inl (ValueError m), db)) \<and>
         (\<exists>m. delete_row db t pk_values = (Inl (ValueError m), db))"
proof -
  from row_identity_filter_fails [OF assms]
  obtain m where "row_identity_filter t pk_values = Inl (ValueError m)" ..
  then show ?thesis by (simp add: update_row_def delete_row_def)
qed

theorem update_delete_fail_fast_witness:
  "primary_key_columns t_plog = [] \<and>
   ''side'' \<in> c_name ` set (primary_key_columns t_players) \<and>
   ''side'' \<notin> fst ` set [(''pid'', ''p1'')] \<and>
   (\<exists>m. update_row store_players t_plog [] [(''msg'', ''x'')] = (Inl (ValueError m), store_players)) \<and>
   (\<exists>m. delete_row store_players t_plog [] = (Inl (ValueError m), store_players)) \<and>
   (\<exists>m. update_row store_players t_players [(''pid'', ''p1'')] [(''name'', ''Al'')]
          = (Inl (ValueError m), store_players)) \<and>
   (\<exists>m. delete_row store_players t_players [(''pid'', ''p1'')] = (Inl (ValueError m), store_players))"
proof -
  have a: "primary_key_columns t_plog = []"
    by (simp add: primary_key_columns_def t_plog_def)
  have b: "\<exists>c\<in>set (primary_key_columns t_players). c_name c \<notin> fst ` set [(''pid'', ''p1'')]"
    by (simp add: primary_key_columns_def t_players_def)
  from a have a': "primary_key_columns t_plog = [] \<or>
           (\<exists>c\<in>set (primary_key_columns t_plog). c_name c \<notin> fst ` set [])" ..
  from b have b': "primary_key_columns t_players = [] \<or>
           (\<exists>c\<in>set (primary_key_columns t_players). c_name c \<notin> fst ` set [(''pid'', ''p1'')])" ..
  have c: "''side'' \<in> c_name ` set (primary_key_columns t_players)"
    by (simp add: primary_key_columns_def t_players_def)
  have d: "''side'' \<notin> fst ` set [(''pid'', ''p1'')]" by simp
  from update_delete_fail_fast [OF a', of store_players "[(''msg'', ''x'')]"]
       update_delete_fail_fast [OF b', of store_players "[(''name'', ''Al'')]"] a c d
  show ?thesis by blast
qed

lemma known_entries_payload:
  "filter (\<lambda>(k, v). in_columns k t) data = known_entries t data"
  by (simp add: known_entries_def in_columns_def)

lemma known_entries_idem: "known_entries t (known_entries t data) = known_entries t data"
  by (simp add: known_entries_def)

lemma create_row_cases:
  "create_row db t data =
     (case rejects db (rows_of db) (Insert t (known_entries t data)) of
        Some e \<Rightarrow> (Inl e, db)
      | None \<Rightarrow>
          (Inr (),
           db\<lparr>rows_of := (rows_of db)
                 (t_name t := rows_of db (t_name t) @ [known_entries t data]),
               executed := executed db @ [Insert t (known_entries t data)]\<rparr>))"
  by (simp add: create_row_def execute_def Let_def known_entries_payload split: option.splits)

lemma strict_server_examples:
  "strict_server (rows_of store_players)
     (Insert t_players [(''pid'', ''p2''), (''name'', ''Al''), (''side'', ''1'')]) = None"
  "strict_server (rows_of store_players)
     (Insert t_players [(''pid'', ''p1''), (''side'', ''0''), (''name'', ''Al'')])
     = Some (SQLAlchemyError ''IntegrityError: duplicate entry for the primary key'')"
  "strict_server (rows_of store_players) (Insert t_players [])
     = Some (SQLAlchemyError ''OperationalError: field without default value'')"
  by (simp_all add: strict_server_def store_players_def t_players_def primary_key_columns_def)

lemma known_entries_examples:
  "known_entries t_players
     [(''pid'', ''p2''), (''csrf'', ''zz''), (''name'', ''Al''), (''side'', ''1'')]
     = [(''pid'', ''p2''), (''name'', ''Al''), (''side'', ''1'')]"
  "known_entries t_players [(''pid'', ''p1''), (''side'', ''0''), (''name'', ''Al'')]
     = [(''pid'', ''p1''), (''side'', ''0''), (''name'', ''Al'')]"
  "known_entries t_players [(''csrf'', ''zz'')] = []"
  by (simp_all add: known_entries_def t_players_def)

lemma rejects_store_players: "rejects store_players = strict_server"
  by (simp add: store_players_def)

text \<open>
  Claim C7, as stated, fails: \<open>create_row\<close> does not catch the error of \<open>db.execute\<close>.
  On a server that enforces the constraints of the table, a form repeating the primary
  key of a stored row, and a form of unknown keys only on a table with a \<open>NOT NULL\<close>
  column without default, raise and insert nothing.
\<close>

theorem create_row_rejected_counterexample:
  "create_row store_players t_players [(''pid'', ''p1''), (''side'', ''0''), (''name'', ''Al'')]
     = (Inl (SQLAlchemyError ''IntegrityError: duplicate entry for the primary key''),
        store_players) \<and>
   create_row store_players t_players [(''csrf'', ''zz'')]
     = (Inl (SQLAlchemyError ''OperationalError: field without default value''),
        store_players)"
  by (simp add: create_row_cases known_entries_examples rejects_store_players
        strict_server_examples)

text \<open>
  Claim C7, amended. \<open>create_row\<close> hands the database one insert whose values are
  exactly the submitted entries whose keys name a column of the table; an entry under
  any other key is dropped and has no influence on the outcome. When the database
  accepts the statement, that row is inserted and nothing is raised; when it rejects
  the statement, its error leaves \<open>create_row\<close> and no row is inserted.
\<close>

theorem create_row_known_columns:
  "set (known_entries t data)
     = {(k, v). (k, v) \<in> set data \<and> k \<in> c_name ` set (t_columns t)} \<and>
   (\<forall>k. map_of (known_entries t data) k
          = (if k \<in> c_name ` set (t_columns t) then map_of data k else None)) \<and>
   (rejects db (rows_of db) (Insert t (known_entries t data)) = None \<longrightarrow>
      create_row db t data =
        (Inr (),
         db\<lparr>rows_of := (rows_of db)
               (t_name t := rows_of db (t_name t) @ [known_entries t data]),
             executed := executed db @ [Insert t (known_entries t data)]\<rparr>)) \<and>
   (rejects db (rows_of db) (Insert t (known_entries t data)) = Some e \<longrightarrow>
      create_row db t data = (Inl e, db)) \<and>
   create_row db t (known_entries t data) = create_row db t data"
proof (intro conjI impI allI)
  show "set (known_entries t data)
          = {(k, v). (k, v) \<in> set data \<and> k \<in> c_name ` set (t_columns t)}"
    by (auto simp: known_entries_def)
next
  fix k
  show "map_of (known_entries t data) k
          = (if k \<in> c_name ` set (t_columns t) then map_of data k else None)"
    unfolding known_entries_def by (induction data) auto
next
  assume "rejects db (rows_of db) (Insert t (known_entries t data)) = None"
  then show "create_row db t data =
        (Inr (),
         db\<lparr>rows_of := (rows_of db)
               (t_name t := rows_of db (t_name t) @ [known_entries t data]),
             executed := executed db @ [Insert t (known_entries t data)]\<rparr>)"
    by (simp add: create_row_cases)
next
  assume "rejects db (rows_of db) (Insert t (known_entries t data)) = Some e"
  then show "create_row db t data = (Inl e, db)"
    by (simp add: create_row_cases)
next
  show "create_row db t (known_entries t data) = create_row db t data"
    unfolding create_row_cases known_entries_idem ..
qed

theorem create_row_known_columns_witness:
  "rejects store_players (rows_of store_players)
     (Insert t_players (known_entries t_players
        [(''pid'', ''p2''), (''csrf'', ''zz''), (''name'', ''Al''), (''side'', ''1'')])) = None \<and>
   create_row store_players t_players
     [(''pid'', ''p2''), (''csrf'', ''zz''), (''name'', ''Al''), (''side'', ''1'')]
     = (Inr (),
        store_players\<lparr>rows_of := (rows_of store_players)
            (''players'' := rows_of store_players ''players''
               @ [[(''pid'', ''p2''), (''name'', ''Al''), (''side'', ''1'')]]),
          executed := [Insert t_players [(''pid'', ''p2''), (''name'', ''Al''), (''side'', ''1'')]]\<rparr>) \<and>
   create_row store_players t_players [(''pid'', ''p1''), (''side'', ''0''), (''name'', ''Al'')]
     = (Inl (SQLAlchemyError ''IntegrityError: duplicate entry for the primary key''),
        store_players)"
proof -
  let ?data = "[(''pid'', ''p2''), (''csrf'', ''zz''), (''name'', ''Al''), (''side'', ''1'')]"
  let ?dup = "[(''pid'', ''p1''), (''side'', ''0''), (''name'', ''Al'')]"
  have a: "rejects store_players (rows_of store_players)
             (Insert t_players (known_entries t_players ?data)) = None"
    by (simp add: rejects_store_players known_entries_examples strict_server_examples)
  have r: "rejects store_players (rows_of store_players)
             (Insert t_players (known_entries t_players ?dup))
           = Some (SQLAlchemyError ''IntegrityError: duplicate entry for the primary key'')"
    by (simp add: rejects_store_players known_entries_examples strict_server_examples)
  have e: "executed store_players = []" by (simp add: store_players_def)
  from create_row_known_columns [of t_players ?data store_players] a
  have 1: "create_row store_players t_players ?data =
        (Inr (),
         store_players\<lparr>rows_of := (rows_of store_players)
               (t_name t_players := rows_of store_players (t_name t_players)
                  @ [known_entries t_players ?data]),
             executed := executed store_players
                  @ [Insert t_players (known_entries t_players ?data)]\<rparr>)"
    by blast
  from create_row_known_columns [of t_players ?dup store_players] r
  have 2: "create_row store_players t_players ?dup
             = (Inl (SQLAlchemyError ''IntegrityError: duplicate entry for the primary key''),
                store_players)"
    by blast
  from a 1 2 e show ?thesis
    by (simp add: known_entries_examples t_players_facts)
qed

end
